theory Spec2Isabelle
  imports Main "HOL-Library.Char_ord" "HOL-Library.List_Lexorder" "HOL-Library.Product_Lexorder"
    "HOL-Library.Multiset"
begin

section \<open>Strings as Python sees them\<close>

text \<open>
  A Python \<open>str\<close> is modelled as a \<open>string\<close>; one \<open>char\<close> stands for one code point below 256.
  The helpers below are the \<open>str\<close> methods and operators the three scripts call.
\<close>

definition startswith :: "string \<Rightarrow> string \<Rightarrow> bool" where
  "startswith s p = (take (length p) s = p)"

definition endswith :: "string \<Rightarrow> string \<Rightarrow> bool" where
  "endswith s p = (length p \<le> length s \<and> drop (length s - length p) s = p)"


definition is_space :: "char \<Rightarrow> bool" where
  "is_space c = (c \<in> set [CHR 0x09, CHR 0x0A, CHR 0x0B, CHR 0x0C, CHR 0x0D, CHR 0x1C,
     CHR 0x1D, CHR 0x1E, CHR 0x1F, CHR 0x20, CHR 0x85, CHR 0xA0])"

definition strip :: "string \<Rightarrow> string" where
  "strip s = rev (dropWhile is_space (rev (dropWhile is_space s)))"

definition lower_char :: "char \<Rightarrow> char" where
  "lower_char c =
     (let n = (of_char c :: nat)
      in if (65 \<le> n \<and> n \<le> 90) \<or> (192 \<le> n \<and> n \<le> 222 \<and> n \<noteq> 215)
         then char_of (n + 32) else c)"

definition lower :: "string \<Rightarrow> string" where
  "lower s = map lower_char s"



text \<open>\<open>str(n)\<close> for a non-negative integer, as the f-strings format counters and indices.\<close>

fun digit_char :: "nat \<Rightarrow> char" where
  "digit_char n = (''0123456789'' ! (n mod 10))"

function str_nat :: "nat \<Rightarrow> string" where
  "str_nat n = (if n < 10 then [digit_char n] else str_nat (n div 10) @ [digit_char n])"
  by pat_completeness auto
termination
  by (relation "measure id") auto

section \<open>The regular expressions of the scripts\<close>

text \<open>
  The patterns handed to \<open>re.search\<close> are sequences of literal characters and greedy repetitions of a
  character class. \<open>rx_match\<close> is the backtracking matcher anchored at the start of the text: a
  repetition first takes as many characters as it can and gives them back one at a time while the
  rest of the pattern fails. It returns the number of characters matched. \<open>rx_search\<close> tries the
  positions of the text from left to right and returns the matched text (\<open>match.group()\<close>).
\<close>

datatype rx = Lit char | Plus "char \<Rightarrow> bool" | Star "char \<Rightarrow> bool"

fun greedy :: "(nat \<Rightarrow> nat option) \<Rightarrow> nat \<Rightarrow> nat \<Rightarrow> nat option" where
  "greedy f lo 0 = (if lo = 0 then f 0 else None)"
| "greedy f lo (Suc k) =
     (if Suc k < lo then None
      else case f (Suc k) of Some n \<Rightarrow> Some n | None \<Rightarrow> greedy f lo k)"

fun rx_match :: "rx list \<Rightarrow> string \<Rightarrow> nat option" where
  "rx_match [] s = Some 0"
| "rx_match (Lit c # r) s =
     (case s of [] \<Rightarrow> None
      | x # xs \<Rightarrow> if x = c then map_option Suc (rx_match r xs) else None)"
| "rx_match (Plus p # r) s =
     greedy (\<lambda>k. map_option ((+) k) (rx_match r (drop k s))) 1 (length (takeWhile p s))"
| "rx_match (Star p # r) s =
     greedy (\<lambda>k. map_option ((+) k) (rx_match r (drop k s))) 0 (length (takeWhile p s))"

fun rx_search :: "rx list \<Rightarrow> string \<Rightarrow> string option" where
  "rx_search r s =
     (case rx_match r s of
        Some n \<Rightarrow> Some (take n s)
      | None \<Rightarrow> (case s of [] \<Rightarrow> None | _ # t \<Rightarrow> rx_search r t))"

section \<open>Identifier Resolver\<close>




section \<open>Exceptions\<close>

text \<open>
  The exceptions the scripts can meet. All of them are subclasses of Python's \<open>Exception\<close>, which
  is what the broad handlers of the scripts catch. \<open>OSError\<close> is what the file system raises when a
  directory or a file cannot be written. \<open>LibraryError\<close> stands for whatever a library or a
  remote service raises (requests, pdfplumber, pdf2image, Tesseract, the OpenAI client).
\<close>

datatype error =
    JSONDecodeError | AttributeError | KeyError | ValueError | TypeError | OSError | LibraryError

fun is_Exception :: "error \<Rightarrow> bool" where
  "is_Exception JSONDecodeError = True"
| "is_Exception AttributeError = True"
| "is_Exception KeyError = True"
| "is_Exception ValueError = True"
| "is_Exception TypeError = True"
| "is_Exception OSError = True"
| "is_Exception LibraryError = True"

section \<open>Text Extractor\<close>

text \<open>
  What the two libraries do with a file is the input of the model. \<open>plumber_pages\<close> is \<open>None\<close>
  when \<open>pdfplumber.open\<close> raises, otherwise the pages in document order; \<open>extract_text\<close> of a page
  returns a string, returns \<open>None\<close>, or raises. \<open>ocr_images\<close> is \<open>None\<close> when \<open>convert_from_path\<close>
  raises, otherwise one entry per page image: the text \<open>image_to_string\<close> returns, or \<open>None\<close> when
  it raises.
\<close>

datatype page_read = PageText string | PageNone | PageRaises

record pdf_file =
  plumber_pages :: "page_read list option"
  ocr_images :: "string option list option"

text \<open>The lines the extractor prints.\<close>

datatype extractor_log = PlumberErrorLogged | RunningOcr | OcrFailedLogged

text \<open>
  The first \<open>try\<close> block. \<open>text\<close> is assigned page by page, so what was gathered before a page
  raises is still in \<open>text\<close> when the handler has run. The result is the value of \<open>text\<close> after the
  block and whether the handler ran.
\<close>

fun plumber_loop :: "page_read list \<Rightarrow> string \<Rightarrow> string \<times> bool" where
  "plumber_loop [] text = (text, False)"
| "plumber_loop (PageRaises # ps) text = (text, True)"
| "plumber_loop (PageNone # ps) text = plumber_loop ps text"
| "plumber_loop (PageText t # ps) text =
     plumber_loop ps (if t \<noteq> [] then text @ t @ [CHR 0x0A] else text)"

definition plumber_pass :: "pdf_file \<Rightarrow> string \<times> bool" where
  "plumber_pass f =
     (case plumber_pages f of None \<Rightarrow> ([], True) | Some pages \<Rightarrow> plumber_loop pages [])"

text \<open>The body of the second \<open>try\<close> block up to \<open>ocr_text\<close>: an error, or the concatenated text.\<close>

fun ocr_loop :: "string option list \<Rightarrow> string \<Rightarrow> error + string" where
  "ocr_loop [] ocr_text = Inr ocr_text"
| "ocr_loop (None # imgs) ocr_text = Inl LibraryError"
| "ocr_loop (Some t # imgs) ocr_text = ocr_loop imgs (ocr_text @ t @ [CHR 0x0A])"

definition ocr_pass :: "pdf_file \<Rightarrow> error + string" where
  "ocr_pass f = (case ocr_images f of None \<Rightarrow> Inl LibraryError | Some imgs \<Rightarrow> ocr_loop imgs [])"

text \<open>
  \<open>extract_text_from_pdf\<close>, with the lines it prints. An error of the OCR block that the handler
  \<open>except Exception\<close> does not catch would leave the function; it is the \<open>Inl\<close> result.
\<close>

definition extract_text_from_pdf :: "pdf_file \<Rightarrow> error + (extractor_log list \<times> string)" where
  "extract_text_from_pdf f =
     (let (text, raised) = plumber_pass f;
          log = (if raised then [PlumberErrorLogged] else [])
      in if strip text = [] then
           (case ocr_pass f of
              Inl e \<Rightarrow>
                if is_Exception e
                then Inr (log @ [RunningOcr, OcrFailedLogged], ''Unknown (OCR failed)'')
                else Inl e
            | Inr ocr_text \<Rightarrow>
                (let text = strip ocr_text
                 in Inr (log @ [RunningOcr],
                         if text \<noteq> [] then strip text else ''Unknown (PDF unreadable)'')))
         else Inr (log, if text \<noteq> [] then strip text else ''Unknown (PDF unreadable)''))"

section \<open>Structured Extractor\<close>

text \<open>
  The values \<open>json.loads\<close> produces. A number is kept as its literal; the scripts never compute
  with one. An object is the list of its key-value pairs, looked up with \<open>map_of\<close>.
\<close>

datatype json =
    JNull | JBool bool | JNumber string | JString string
  | JArray "json list" | JObject "(string \<times> json) list"

text \<open>\<open>d.get(key, default)\<close>\<close>

definition dict_get :: "(string \<times> json) list \<Rightarrow> string \<Rightarrow> json \<Rightarrow> json" where
  "dict_get d key dflt = (case map_of d key of Some v \<Rightarrow> v | None \<Rightarrow> dflt)"

record attributes =
  who_type :: json
  who_name :: json
  what :: json
  why :: json
  issues :: "json list"
  scientific_legal_support :: json

definition USE_API :: bool where
  "USE_API = True"

definition MAX_TOKENS :: nat where
  "MAX_TOKENS = 50000"

definition test_record :: attributes where
  "test_record = \<lparr>who_type = JString ''Test'', who_name = JString ''Test Name'',
     what = JString ''Test Request'', why = JString ''Test Reason'',
     issues = [JString ''Test Issue''], scientific_legal_support = JString ''No''\<rparr>"

definition fallback_record :: attributes where
  "fallback_record = \<lparr>who_type = JString ''Unknown'', who_name = JString ''Unknown'',
     what = JString ''Unknown'', why = JString ''Unknown'',
     issues = [JString ''Needs manual review''], scientific_legal_support = JString ''No''\<rparr>"

text \<open>
  \<open>extract_json_block\<close> of LLM_Model_FINAL.py: \<open>re.search(r"\{[\s\S]*\}", text)\<close>, the matched text
  or \<open>ValueError\<close>.
\<close>

definition json_block_rx :: "rx list" where
  "json_block_rx = [Lit CHR ''{'', Star (\<lambda>c. True), Lit CHR ''}'']"

definition extract_json_block :: "string \<Rightarrow> error + string" where
  "extract_json_block text =
     (case rx_search json_block_rx text of Some m \<Rightarrow> Inr m | None \<Rightarrow> Inl ValueError)"

text \<open>
  The language-model service and the JSON parser are inputs of the model. The service answers a
  request with an error (anything \<open>client.chat.completions.create\<close> or the access to
  \<open>response.choices[0]\<close> raises) or with the message content, which may be \<open>None\<close>. The request is
  determined by the two values the prompt embeds: the comment text and the flag. \<open>json_loads\<close> is
  \<open>None\<close> where \<open>json.loads\<close> raises \<open>JSONDecodeError\<close>.
\<close>

datatype llm_reply = ServiceError | Content "string option"

record services =
  chat :: "string \<Rightarrow> bool \<Rightarrow> llm_reply"
  json_loads :: "string \<Rightarrow> json option"

text \<open>The body of the \<open>try\<close> block of \<open>classify_comment_by_issue\<close>.\<close>

definition parse_issues :: "(string \<times> json) list \<Rightarrow> error + json list" where
  "parse_issues response_data =
     (case dict_get response_data ''issues'' (JArray []) of
        JArray _ \<Rightarrow>
          (case map_of response_data ''issues'' of
             None \<Rightarrow> Inl KeyError
           | Some (JArray xs) \<Rightarrow> Inr xs
           | Some v \<Rightarrow> Inr [v])
      | _ \<Rightarrow> Inr [dict_get response_data ''issues'' (JString ''Needs manual review'')])"

definition classify_try :: "services \<Rightarrow> string \<Rightarrow> bool \<Rightarrow> error + attributes" where
  "classify_try sv comment_text pdf_attached =
     (case chat sv comment_text pdf_attached of
        ServiceError \<Rightarrow> Inl LibraryError
      | Content None \<Rightarrow> Inl AttributeError
      | Content (Some c) \<Rightarrow>
          (case extract_json_block (strip c) of
             Inl e \<Rightarrow> Inl e
           | Inr clean_json \<Rightarrow>
               (case json_loads sv clean_json of
                  None \<Rightarrow> Inl JSONDecodeError
                | Some (JObject response_data) \<Rightarrow>
                    (case parse_issues response_data of
                       Inl e \<Rightarrow> Inl e
                     | Inr parsed_issues \<Rightarrow>
                         Inr \<lparr>who_type = dict_get response_data ''who_type'' (JString ''Unknown''),
                              who_name = dict_get response_data ''who_name'' (JString ''Unknown''),
                              what = dict_get response_data ''what'' (JString ''Unknown''),
                              why = dict_get response_data ''why'' (JString ''Unknown''),
                              issues = parsed_issues,
                              scientific_legal_support =
                                dict_get response_data ''scientific_legal_support'' (JString ''No'')\<rparr>)
                | Some _ \<Rightarrow> Inl AttributeError)))"

text \<open>
  \<open>classify_comment_by_issue\<close>: the truncation, the call, and the two handlers in their order. An
  error neither handler catches is the \<open>Inl\<close> result.
\<close>

definition truncate_comment :: "string \<Rightarrow> string" where
  "truncate_comment comment_text =
     (if length comment_text > MAX_TOKENS
      then take MAX_TOKENS comment_text @ '' [TRUNCATED]'' else comment_text)"

definition classify_comment_by_issue :: "services \<Rightarrow> string \<Rightarrow> bool \<Rightarrow> error + attributes" where
  "classify_comment_by_issue sv comment_text pdf_attached =
     (if \<not> USE_API then Inr test_record
      else
        (let comment_text = truncate_comment comment_text
         in case classify_try sv comment_text pdf_attached of
              Inr r \<Rightarrow> Inr r
            | Inl e \<Rightarrow>
                if e = JSONDecodeError \<or> e = AttributeError then Inr fallback_record
                else if is_Exception e then Inr fallback_record
                else Inl e))"

section \<open>Page files\<close>

text \<open>
  The entries of a page file, as \<open>fetch_all_comments\<close> writes them and \<open>process_json_comments\<close>
  reads them. A string-valued key of a JSON object is absent, \<open>null\<close>, or a string. The downloader
  always writes the three keys of a comment; the processor supplies defaults for absent ones, so
  \<open>comment_id = None\<close> stands for an absent key and \<open>text_value = None\<close> (the key \<open>text\<close>) for an
  absent key, \<open>null\<close> or a value that is not a string.
\<close>

datatype jfield = Absent | Null | Str string

record attachment =
  url :: string
  file_path :: jfield

record raw_comment =
  comment_id :: "string option"
  text_value :: "string option"
  attachments :: "attachment list"

section \<open>Paginated Ingestor\<close>

text \<open>
  The repository API and the local disk are the input of the model. The API holds the finite
  listing of the comment summaries of the object, in the order of the sort key. A page request
  raises (\<open>requests.get\<close> or \<open>response.json()\<close>), answers with a non-success status, with a body that
  has no \<open>data\<close> key, or with the slice of the listing for that page. A summary carries its \<open>self\<close>
  link or none. The other requests are keyed by what the code sends: the link of a full record,
  the comment id of an attachment listing, the URL of a file; each of them can raise as well.
  \<open>file_writable\<close> tells whether \<open>os.makedirs\<close> and \<open>open\<close> succeed for a path; otherwise they raise
  \<open>OSError\<close>.
\<close>

datatype page_status = PageOk | PageHttpError | PageNoData | PageRequestRaises

record summary =
  self_link :: "string option"

record full_comment =
  fc_id :: "string option"
  fc_comment :: jfield

datatype full_reply = FullRaises | FullHttpError | FullEmpty | FullData full_comment

record file_format =
  file_url :: "string option"

record attachment_entry =
  file_formats :: "file_format list option"

datatype attachments_reply =
    AttachmentsRaises | AttachmentsHttpError | AttachmentsData "attachment_entry list"

datatype file_reply = FileRaises | FileHttpError | FileData "string option"

record api =
  listing :: "summary list"
  page_reply :: "nat \<Rightarrow> page_status"
  full_record_reply :: "string \<Rightarrow> full_reply"
  attachment_listing :: "string \<Rightarrow> attachments_reply"
  file_download :: "string \<Rightarrow> file_reply"
  file_writable :: "string \<Rightarrow> bool"

text \<open>
  \<open>total_comments\<close> is \<open>float("inf")\<close> for the answer \<open>all\<close> and \<open>int(...)\<close> of the answer otherwise.
  \<open>reached lim d\<close> is the test \<open>downloaded_comments >= total_comments\<close>.
\<close>

datatype limit = Unlimited | Limit int

fun reached :: "limit \<Rightarrow> nat \<Rightarrow> bool" where
  "reached Unlimited d = False"
| "reached (Limit n) d = (n \<le> int d)"

text \<open>
  \<open>get_comments_by_object_id\<close>: an error, \<open>None\<close> on a non-success status, otherwise the body, whose
  \<open>data\<close> key is absent (\<open>None\<close>) or holds the rows.
\<close>

definition get_comments_by_object_id ::
  "api \<Rightarrow> nat \<Rightarrow> nat \<Rightarrow> error + summary list option option" where
  "get_comments_by_object_id a page_size page_number =
     (case page_reply a page_number of
        PageRequestRaises \<Rightarrow> Inl LibraryError
      | PageHttpError \<Rightarrow> Inr None
      | PageNoData \<Rightarrow> Inr (Some None)
      | PageOk \<Rightarrow>
          Inr (Some (Some (take page_size (drop ((page_number - 1) * page_size) (listing a))))))"

text \<open>
  \<open>fetch_full_comment_data\<close>, together with the test \<open>if full_comment:\<close> of its caller: an error,
  \<open>None\<close> for \<open>None\<close> and for an empty object, otherwise the record.
\<close>

fun fetch_full_comment_data :: "api \<Rightarrow> string \<Rightarrow> error + full_comment option" where
  "fetch_full_comment_data a link =
     (case full_record_reply a link of
        FullRaises \<Rightarrow> Inl LibraryError
      | FullHttpError \<Rightarrow> Inr None
      | FullEmpty \<Rightarrow> Inr None
      | FullData fc \<Rightarrow> Inr (Some fc))"

definition get_extension_from_content_type :: "string option \<Rightarrow> string option" where
  "get_extension_from_content_type content_type =
     (if content_type = Some ''application/pdf'' then Some ''pdf''
      else if content_type = Some ''image/jpeg'' then Some ''jpg''
      else if content_type = Some ''image/png'' then Some ''png''
      else if content_type = Some ''application/zip'' then Some ''zip''
      else None)"

text \<open>
  \<open>download_file\<close>: an error when the request or the writing of the file raises, \<open>None\<close> after a
  non-success status, otherwise the path of the saved file.
\<close>

definition download_file :: "api \<Rightarrow> string \<Rightarrow> string \<Rightarrow> nat \<Rightarrow> error + string option" where
  "download_file a link cid attachment_index =
     (case file_download a link of
        FileRaises \<Rightarrow> Inl LibraryError
      | FileHttpError \<Rightarrow> Inr None
      | FileData content_type \<Rightarrow>
          (let extension = (case get_extension_from_content_type content_type of
                              Some e \<Rightarrow> if e \<noteq> [] then e else ''dat''
                            | None \<Rightarrow> ''dat'');
               path = ''./Downloads/USDA_JSON/attachments/'' @ cid @ ''_''
                      @ str_nat attachment_index @ ''.'' @ extension
           in if file_writable a path then Inr (Some path) else Inl OSError))"

text \<open>
  \<open>fetch_attachments\<close>: the two nested loops. A download that ends with a non-success status
  leaves \<open>None\<close> in \<open>file_path\<close>, which \<open>json.dump\<close> writes as \<open>null\<close>.
\<close>

fun fetch_formats :: "api \<Rightarrow> string \<Rightarrow> nat \<Rightarrow> file_format list \<Rightarrow> error + attachment list" where
  "fetch_formats a cid attachment_index [] = Inr []"
| "fetch_formats a cid attachment_index (ff # ffs) =
     (case file_url ff of
        None \<Rightarrow> fetch_formats a cid attachment_index ffs
      | Some u \<Rightarrow>
          if u = [] then fetch_formats a cid attachment_index ffs
          else
            (case download_file a u cid attachment_index of
               Inl e \<Rightarrow> Inl e
             | Inr downloaded \<Rightarrow>
                 (case fetch_formats a cid attachment_index ffs of
                    Inl e \<Rightarrow> Inl e
                  | Inr rest \<Rightarrow>
                      Inr (\<lparr>url = u,
                            file_path = (case downloaded of None \<Rightarrow> Null | Some p \<Rightarrow> Str p)\<rparr>
                           # rest))))"

fun fetch_entries :: "api \<Rightarrow> string \<Rightarrow> nat \<Rightarrow> attachment_entry list \<Rightarrow> error + attachment list" where
  "fetch_entries a cid attachment_index [] = Inr []"
| "fetch_entries a cid attachment_index (e # es) =
     (case file_formats e of
        None \<Rightarrow> fetch_entries a cid (Suc attachment_index) es
      | Some ffs \<Rightarrow>
          (case fetch_formats a cid attachment_index ffs of
             Inl e \<Rightarrow> Inl e
           | Inr metadata \<Rightarrow>
               (case fetch_entries a cid (Suc attachment_index) es of
                  Inl e \<Rightarrow> Inl e
                | Inr rest \<Rightarrow> Inr (metadata @ rest))))"

definition fetch_attachments :: "api \<Rightarrow> string \<Rightarrow> error + attachment list" where
  "fetch_attachments a cid =
     (case attachment_listing a cid of
        AttachmentsRaises \<Rightarrow> Inl LibraryError
      | AttachmentsHttpError \<Rightarrow> Inr []
      | AttachmentsData entries \<Rightarrow> fetch_entries a cid 0 entries)"

text \<open>
  The \<open>for\<close> loop over the rows of one page, with its \<open>break\<close>. The state is \<open>cleaned_comments\<close> and
  \<open>downloaded_comments\<close>. An error leaves the loop and the function.
\<close>

definition clean_comment :: "api \<Rightarrow> full_comment \<Rightarrow> error + raw_comment" where
  "clean_comment a fc =
     (let cid = (case fc_id fc of Some i \<Rightarrow> i | None \<Rightarrow> [])
      in case fetch_attachments a cid of
           Inl e \<Rightarrow> Inl e
         | Inr attachments_metadata \<Rightarrow>
             Inr \<lparr>comment_id = Some cid,
                  text_value = (case fc_comment fc of
                                  Absent \<Rightarrow> Some [] | Null \<Rightarrow> None | Str t \<Rightarrow> Some t),
                  attachments = attachments_metadata\<rparr>)"

fun fetch_rows ::
  "api \<Rightarrow> limit \<Rightarrow> summary list \<Rightarrow> raw_comment list \<times> nat \<Rightarrow> error + (raw_comment list \<times> nat)"
  where
  "fetch_rows a total_comments [] (cleaned_comments, downloaded_comments) =
     Inr (cleaned_comments, downloaded_comments)"
| "fetch_rows a total_comments (c # cs) (cleaned_comments, downloaded_comments) =
     (if reached total_comments downloaded_comments
      then Inr (cleaned_comments, downloaded_comments)
      else case self_link c of
             None \<Rightarrow> fetch_rows a total_comments cs (cleaned_comments, downloaded_comments)
           | Some link \<Rightarrow>
               (case fetch_full_comment_data a link of
                  Inl e \<Rightarrow> Inl e
                | Inr None \<Rightarrow>
                    fetch_rows a total_comments cs (cleaned_comments, downloaded_comments)
                | Inr (Some fc) \<Rightarrow>
                    (case clean_comment a fc of
                       Inl e \<Rightarrow> Inl e
                     | Inr cleaned_comment \<Rightarrow>
                         fetch_rows a total_comments cs
                           (cleaned_comments @ [cleaned_comment], Suc downloaded_comments))))"

text \<open>
  \<open>s.replace(old, new)\<close> for a non-empty \<open>old\<close>: the occurrences are replaced from left to right
  and do not overlap. \<open>page_filename\<close> is the name \<open>save_comments_incrementally\<close> gives the file of
  a page.
\<close>

function replace :: "string \<Rightarrow> string \<Rightarrow> string \<Rightarrow> string" where
  "replace old new [] = []"
| "replace old new (c # cs) =
     (if old \<noteq> [] \<and> startswith (c # cs) old
      then new @ replace old new (drop (length old) (c # cs))
      else c # replace old new cs)"
  by pat_completeness auto
termination
  by (relation "measure (\<lambda>(old, new, s). length s)") auto

definition page_filename :: "string \<Rightarrow> nat \<Rightarrow> string" where
  "page_filename filename page_number =
     replace ''.json'' (''_page_'' @ str_nat page_number @ ''.json'') filename"

text \<open>
  \<open>fetch_all_comments\<close>: the \<open>while True\<close> loop from the state \<open>page_number\<close>,
  \<open>downloaded_comments\<close>. The result is the sequence of the files \<open>save_comments_incrementally\<close>
  has written, each with its name and the comments in it, and the error that ended the run, if
  one did. The files written before an error stay.
\<close>

definition page_size :: nat where
  "page_size = 250"

function fetch_pages ::
  "api \<Rightarrow> string \<Rightarrow> limit \<Rightarrow> nat \<Rightarrow> nat \<Rightarrow> (string \<times> raw_comment list) list \<times> error option"
  where
  "fetch_pages a filename total_comments page_number downloaded_comments =
     (case get_comments_by_object_id a page_size page_number of
        Inl e \<Rightarrow> ([], Some e)
      | Inr None \<Rightarrow> ([], None)
      | Inr (Some None) \<Rightarrow> ([], None)
      | Inr (Some (Some rows)) \<Rightarrow>
          if rows = [] then ([], None)
          else
            (case fetch_rows a total_comments rows ([], downloaded_comments) of
               Inl e \<Rightarrow> ([], Some e)
             | Inr (cleaned_comments, downloaded) \<Rightarrow>
                 if \<not> file_writable a (page_filename filename page_number) then ([], Some OSError)
                 else
                   (let written = (page_filename filename page_number, cleaned_comments)
                    in if reached total_comments downloaded \<or> length rows < page_size
                       then ([written], None)
                       else
                         (let (files, err) =
                                fetch_pages a filename total_comments (page_number + 1) downloaded
                          in (written # files, err)))))"
  by pat_completeness auto
termination
proof (relation "measure (\<lambda>(a, f, t, p, d). length (listing a) + page_size - p * page_size)",
       goal_cases)
  case 1
  show ?case by simp
next
  case (2 a filename total_comments page_number downloaded_comments b x2 rows c x y written)
  then have rows: "rows = take page_size (drop ((page_number - 1) * page_size) (listing a))"
    by (auto simp: get_comments_by_object_id_def split: page_status.splits)
  from 2 have "page_size \<le> length rows" by simp
  with rows have "page_size \<le> length (listing a) - (page_number - 1) * page_size" by simp
  then have "page_number * page_size \<le> length (listing a)"
    by (cases page_number) (simp_all add: page_size_def)
  then show ?case by (simp add: page_size_def)
qed

definition fetch_all_comments ::
  "api \<Rightarrow> string \<Rightarrow> limit \<Rightarrow> (string \<times> raw_comment list) list \<times> error option" where
  "fetch_all_comments a filename total_comments = fetch_pages a filename total_comments 1 0"

section \<open>Comment Processor\<close>

text \<open>
  The file system, the two PDF libraries and the services are inputs of the model. Paths follow
  \<open>posixpath\<close>: \<open>basename\<close> is what follows the last slash.
\<close>

record world =
  path_exists :: "string \<Rightarrow> bool"
  read_pdf :: "string \<Rightarrow> pdf_file"
  llm :: services

definition basename :: "string \<Rightarrow> string" where
  "basename p = rev (takeWhile (\<lambda>c. c \<noteq> CHR ''/'') (rev p))"

definition path_join :: "string \<Rightarrow> string \<Rightarrow> string" where
  "path_join a b =
     (if startswith b ''/'' then b
      else if a = [] \<or> endswith a ''/'' then a @ b
      else a @ ''/'' @ b)"

text \<open>
  \<open>att.get("file_path", "")\<close> followed by a method call on the value: the default for an absent
  key, \<open>AttributeError\<close> for \<open>None\<close>, which has no string methods.
\<close>

fun file_path_str :: "attachment \<Rightarrow> error + string" where
  "file_path_str att =
     (case file_path att of Absent \<Rightarrow> Inr [] | Null \<Rightarrow> Inl AttributeError | Str p \<Rightarrow> Inr p)"

text \<open>The generator sum that counts the PDF attachments.\<close>

fun count_pdfs :: "attachment list \<Rightarrow> error + nat" where
  "count_pdfs [] = Inr 0"
| "count_pdfs (att # atts) =
     (case file_path_str att of
        Inl e \<Rightarrow> Inl e
      | Inr p \<Rightarrow>
          (case count_pdfs atts of
             Inl e \<Rightarrow> Inl e
           | Inr n \<Rightarrow> Inr (if endswith (lower p) ''.pdf'' then Suc n else n)))"

text \<open>The lines the processor prints, with the path or comment id they name.\<close>

datatype processor_log =
    ExtractingPdf string | PdfNotFound string | SkippingEmpty string | ProcessedComment string

text \<open>
  The loop over the attachments of one comment. The state is the log and \<open>extracted_texts\<close>.
\<close>

fun extract_attachments ::
  "world \<Rightarrow> string \<Rightarrow> attachment list \<Rightarrow> processor_log list \<times> string list
   \<Rightarrow> error + (processor_log list \<times> string list)" where
  "extract_attachments w pdf_folder [] (log, extracted_texts) = Inr (log, extracted_texts)"
| "extract_attachments w pdf_folder (att # atts) (log, extracted_texts) =
     (case file_path_str att of
        Inl e \<Rightarrow> Inl e
      | Inr p \<Rightarrow>
          if endswith p ''.pdf'' then
            (let local_pdf_path = path_join pdf_folder (basename p)
             in if path_exists w local_pdf_path then
                  (case extract_text_from_pdf (read_pdf w local_pdf_path) of
                     Inl e \<Rightarrow> Inl e
                   | Inr (_, pdf_text) \<Rightarrow>
                       extract_attachments w pdf_folder atts
                         (log @ [ExtractingPdf local_pdf_path],
                          if pdf_text \<noteq> []
                          then extracted_texts @ [''Extracted PDF Text: '' @ pdf_text]
                          else extracted_texts))
                else extract_attachments w pdf_folder atts
                       (log @ [PdfNotFound local_pdf_path], extracted_texts))
          else extract_attachments w pdf_folder atts (log, extracted_texts))"

text \<open>\<open>sep.join(parts)\<close> on strings, and on JSON values, where a part that is not a string raises.\<close>

fun join :: "string \<Rightarrow> string list \<Rightarrow> string" where
  "join sep [] = []"
| "join sep [x] = x"
| "join sep (x # y # ys) = x @ sep @ join sep (y # ys)"

fun json_strings :: "json list \<Rightarrow> error + string list" where
  "json_strings [] = Inr []"
| "json_strings (JString s # vs) =
     (case json_strings vs of Inl e \<Rightarrow> Inl e | Inr ss \<Rightarrow> Inr (s # ss))"
| "json_strings (_ # vs) = Inl TypeError"

record flat_record =
  fr_comment_id :: string
  fr_comment_link :: string
  fr_who_type :: json
  fr_who_name :: json
  fr_what :: json
  fr_why :: json
  fr_issues :: string
  fr_scientific_legal_support :: json
  fr_pdf_attachments_present :: string
  fr_pdf_attachments_count :: nat

text \<open>
  One turn of the loop of \<open>process_json_comments\<close>. The state is the log and \<open>results\<close>.
\<close>

definition process_comment ::
  "world \<Rightarrow> string \<Rightarrow> raw_comment \<Rightarrow> processor_log list \<times> flat_record list
   \<Rightarrow> error + (processor_log list \<times> flat_record list)" where
  "process_comment w pdf_folder comment st =
     (let (log, results) = st;
          cid = (case comment_id comment of
                   Some i \<Rightarrow> i | None \<Rightarrow> ''unknown_'' @ str_nat (length results));
          comment_text = (case text_value comment of Some t \<Rightarrow> strip t | None \<Rightarrow> []);
          comment_link = ''https://www.regulations.gov/comment/'' @ cid
      in case count_pdfs (attachments comment) of
           Inl e \<Rightarrow> Inl e
         | Inr pdf_count \<Rightarrow>
             (let pdf_attached = (pdf_count > 0);
                  extracted_texts =
                    (if comment_text \<noteq> []
                        \<and> lower comment_text \<notin> set [''see attached file(s)'', ''see attached'']
                     then [''Comment Text: '' @ comment_text] else [])
              in case extract_attachments w pdf_folder (attachments comment) (log, extracted_texts) of
                   Inl e \<Rightarrow> Inl e
                 | Inr (log, extracted_texts) \<Rightarrow>
                     (let combined_text = strip (join [CHR 0x0A, CHR 0x0A] extracted_texts)
                      in if combined_text = [] then Inr (log @ [SkippingEmpty cid], results)
                         else
                           (case classify_comment_by_issue (llm w) combined_text pdf_attached of
                              Inl e \<Rightarrow> Inl e
                            | Inr summary \<Rightarrow>
                                (case json_strings (issues summary) of
                                   Inl e \<Rightarrow> Inl e
                                 | Inr issue_strings \<Rightarrow>
                                     Inr (log @ [ProcessedComment cid],
                                          results @
                                          [\<lparr>fr_comment_id = cid,
                                            fr_comment_link = comment_link,
                                            fr_who_type = who_type summary,
                                            fr_who_name = who_name summary,
                                            fr_what = what summary,
                                            fr_why = why summary,
                                            fr_issues = join '', '' issue_strings,
                                            fr_scientific_legal_support =
                                              scientific_legal_support summary,
                                            fr_pdf_attachments_present =
                                              (if pdf_attached then ''Yes'' else ''No''),
                                            fr_pdf_attachments_count = pdf_count\<rparr>]))))))"

fun process_loop ::
  "world \<Rightarrow> string \<Rightarrow> raw_comment list \<Rightarrow> processor_log list \<times> flat_record list
   \<Rightarrow> error + (processor_log list \<times> flat_record list)" where
  "process_loop w pdf_folder [] st = Inr st"
| "process_loop w pdf_folder (comment # comments) st =
     (case process_comment w pdf_folder comment st of
        Inl e \<Rightarrow> Inl e
      | Inr st' \<Rightarrow> process_loop w pdf_folder comments st')"

text \<open>
  \<open>process_json_comments\<close> on the comments loaded from one page file, and \<open>process_all_comments\<close>
  on the page files of the folder, in the order \<open>os.listdir\<close> gives them.
\<close>

definition process_json_comments ::
  "world \<Rightarrow> string \<Rightarrow> raw_comment list \<Rightarrow> error + (processor_log list \<times> flat_record list)" where
  "process_json_comments w pdf_folder comments_data = process_loop w pdf_folder comments_data ([], [])"

fun process_all_comments ::
  "world \<Rightarrow> string \<Rightarrow> raw_comment list list \<Rightarrow> flat_record list \<Rightarrow> error + flat_record list" where
  "process_all_comments w pdf_folder [] results = Inr results"
| "process_all_comments w pdf_folder (page # pages) results =
     (case process_json_comments w pdf_folder page of
        Inl e \<Rightarrow> Inl e
      | Inr (_, new_results) \<Rightarrow> process_all_comments w pdf_folder pages (results @ new_results))"

section \<open>Issue Clusterer\<close>

text \<open>
  comment_clustering.py is a script; its steps are the functions below. A row of the data frame
  keeps the two columns the script reads: \<open>comment_id\<close> and \<open>issues\<close>, already split into the list of
  issue strings.
\<close>

record cluster_row =
  cr_comment_id :: string
  cr_issues :: "string list"

text \<open>
  \<open>all_issues\<close>: the keys of the counter, that is the distinct issue strings in the order of their
  first occurrence.
\<close>

definition all_issues :: "cluster_row list \<Rightarrow> string list" where
  "all_issues df = rev (remdups (rev (concat (map cr_issues df))))"

definition BATCH_SIZE :: nat where
  "BATCH_SIZE = 500"

definition batches :: "string list \<Rightarrow> string list list" where
  "batches xs =
     map (\<lambda>i. take BATCH_SIZE (drop (i * BATCH_SIZE) xs))
       [0..<(length xs + BATCH_SIZE - 1) div BATCH_SIZE]"

text \<open>
  One object of the array the service returns for a batch. A key may be missing, and then the
  subscript raises \<open>KeyError\<close>.
\<close>

record issue_group =
  category :: "string option"
  related_issues :: "string list option"

text \<open>
  What the service and \<open>extract_json_block\<close> of comment_clustering.py give for one batch: the call
  raises, the response has no parsable array (\<open>ValueError\<close>), or the parsed groups.
\<close>

datatype grouping_reply = GroupingServiceError | Unparsable | Groups "issue_group list"

text \<open>
  The state of pass 1 is \<open>issue_to_category\<close> and \<open>all_categories\<close>. \<open>assign_issues\<close> is the innermost
  loop, one dictionary assignment per issue.
\<close>

fun assign_issues :: "(string \<rightharpoonup> string) \<Rightarrow> string \<Rightarrow> string list \<Rightarrow> (string \<rightharpoonup> string)" where
  "assign_issues issue_to_category c [] = issue_to_category"
| "assign_issues issue_to_category c (issue # rest) =
     assign_issues (issue_to_category(issue \<mapsto> c)) c rest"

fun merge_groups ::
  "issue_group list \<Rightarrow> (string \<rightharpoonup> string) \<times> string set \<Rightarrow> error + ((string \<rightharpoonup> string) \<times> string set)"
  where
  "merge_groups [] st = Inr st"
| "merge_groups (g # gs) (issue_to_category, all_categories) =
     (case category g of
        None \<Rightarrow> Inl KeyError
      | Some c \<Rightarrow>
          (case related_issues g of
             None \<Rightarrow> Inl KeyError
           | Some ris \<Rightarrow>
               merge_groups gs
                 (assign_issues issue_to_category c (take 200 ris), insert c all_categories)))"

text \<open>
  The loop over the batches. Only \<open>ValueError\<close> is caught, and the batch is skipped; an error of
  the service call or a \<open>KeyError\<close> ends the script.
\<close>

fun merge_batches ::
  "grouping_reply list \<Rightarrow> (string \<rightharpoonup> string) \<times> string set \<Rightarrow> error + ((string \<rightharpoonup> string) \<times> string set)"
  where
  "merge_batches [] st = Inr st"
| "merge_batches (GroupingServiceError # rs) st = Inl LibraryError"
| "merge_batches (Unparsable # rs) st = merge_batches rs st"
| "merge_batches (Groups gs # rs) st =
     (case merge_groups gs st of Inl e \<Rightarrow> Inl e | Inr st' \<Rightarrow> merge_batches rs st')"

definition categorize ::
  "(string list \<Rightarrow> grouping_reply) \<Rightarrow> string list \<Rightarrow> error + ((string \<rightharpoonup> string) \<times> string set)" where
  "categorize service issue_strings =
     merge_batches (map service (batches issue_strings)) (Map.empty, {})"

text \<open>
  \<open>consolidate_categories\<close>: the call raises, the response is not JSON and the identity on the
  categories is used, or the parsed dictionary.
\<close>

datatype consolidation_reply =
    ConsolidationServiceError | NotJson | Mapping "string \<rightharpoonup> string"

fun consolidate_categories :: "consolidation_reply \<Rightarrow> string set \<Rightarrow> error + (string \<rightharpoonup> string)" where
  "consolidate_categories ConsolidationServiceError categories = Inl LibraryError"
| "consolidate_categories NotJson categories =
     Inr (\<lambda>cat. if cat \<in> categories then Some cat else None)"
| "consolidate_categories (Mapping m) categories = Inr m"

text \<open>\<open>{k: category_mapping.get(v, v) for k, v in issue_to_category.items()}\<close>\<close>

definition apply_mapping :: "(string \<rightharpoonup> string) \<Rightarrow> (string \<rightharpoonup> string) \<Rightarrow> (string \<rightharpoonup> string)" where
  "apply_mapping category_mapping issue_to_category =
     (\<lambda>k. case issue_to_category k of
            None \<Rightarrow> None
          | Some v \<Rightarrow> Some (case category_mapping v of Some w \<Rightarrow> w | None \<Rightarrow> v))"

text \<open>
  \<open>map_to_categories\<close>: the set of the truthy categories of the issues, as a list without
  repetitions. Python gives the elements of the set in no specified order.
\<close>

definition map_to_categories :: "(string \<rightharpoonup> string) \<Rightarrow> string list \<Rightarrow> string list" where
  "map_to_categories issue_to_category issue_list =
     remdups (List.map_filter
       (\<lambda>issue. case issue_to_category issue of
                  None \<Rightarrow> None
                | Some c \<Rightarrow> if c \<noteq> [] then Some c else None) issue_list)"

text \<open>
  The data frame with the column \<open>high_level_issues\<close>, each row with its index label, and the three
  pandas steps: \<open>explode\<close> (an empty list becomes one row with a missing value), the \<open>notna\<close>
  filter, and \<open>sort_values\<close> by \<open>issue_category\<close>, then \<open>comment_id\<close>.
\<close>

definition with_categories ::
  "(string \<rightharpoonup> string) \<Rightarrow> cluster_row list \<Rightarrow> (nat \<times> cluster_row \<times> string list) list" where
  "with_categories issue_to_category df =
     zip [0..<length df] (map (\<lambda>r. (r, map_to_categories issue_to_category (cr_issues r))) df)"

definition explode ::
  "(nat \<times> cluster_row \<times> string list) list \<Rightarrow> (nat \<times> cluster_row \<times> string option) list" where
  "explode df =
     concat (map (\<lambda>(i, r, cats).
                    if cats = [] then [(i, r, None)] else map (\<lambda>c. (i, r, Some c)) cats) df)"

definition notna ::
  "(nat \<times> cluster_row \<times> string option) list \<Rightarrow> (nat \<times> cluster_row \<times> string) list" where
  "notna df = List.map_filter (\<lambda>(i, r, c). map_option (\<lambda>c. (i, r, c)) c) df"

definition sort_columns :: "nat \<times> cluster_row \<times> string \<Rightarrow> string \<times> string" where
  "sort_columns row = (case row of (i, r, c) \<Rightarrow> (c, cr_comment_id r))"

definition sort_values ::
  "(nat \<times> cluster_row \<times> string) list \<Rightarrow> (nat \<times> cluster_row \<times> string) list" where
  "sort_values df = sort_key sort_columns df"

definition sorted_by_issue ::
  "(string \<rightharpoonup> string) \<Rightarrow> cluster_row list \<Rightarrow> (nat \<times> cluster_row \<times> string) list" where
  "sorted_by_issue issue_to_category df =
     sort_values (notna (explode (with_categories issue_to_category df)))"

section \<open>Properties of the matcher\<close>


lemma greedy_Some_D:
  "greedy f lo hi = Some v \<Longrightarrow> \<exists>k. lo \<le> k \<and> k \<le> hi \<and> f k = Some v"
proof (induction hi)
  case 0
  then show ?case by (auto split: if_splits)
next
  case (Suc hi)
  show ?case
  proof (cases "f (Suc hi)")
    case None
    with Suc.prems have "greedy f lo hi = Some v" by (simp split: if_splits)
    with Suc.IH obtain k where "lo \<le> k" "k \<le> hi" "f k = Some v" by blast
    then show ?thesis using le_SucI by blast
  next
    case (Some w)
    with Suc.prems have "\<not> Suc hi < lo" "w = v" by (auto split: if_splits)
    with Some show ?thesis by (intro exI [of _ "Suc hi"]) simp
  qed
qed




lemma rx_search_Some_D:
  "rx_search r s = Some m \<Longrightarrow> \<exists>a t n. s = a @ t \<and> rx_match r t = Some n \<and> m = take n t"
proof (induction s)
  case Nil
  then obtain n where "rx_match r [] = Some n" "m = take n []"
    by (auto split: option.splits)
  moreover have "[] = [] @ ([]::string)" by simp
  ultimately show ?case by blast
next
  case (Cons c s)
  show ?case
  proof (cases "rx_match r (c # s)")
    case (Some n)
    with Cons.prems have "m = take n (c # s)" by simp
    moreover have "c # s = [] @ (c # s)" by simp
    ultimately show ?thesis using Some by blast
  next
    case None
    with Cons.prems have "rx_search r s = Some m" by simp
    with Cons.IH obtain a t n where "s = a @ t" "rx_match r t = Some n" "m = take n t"
      by blast
    moreover from this have "c # s = (c # a) @ t" by simp
    ultimately show ?thesis by blast
  qed
qed























section \<open>Properties of the Structured Extractor\<close>

lemma strip_infix: "\<exists>x y. s = x @ strip s @ y"
proof -
  let ?u = "dropWhile is_space s"
  have "s = takeWhile is_space s @ ?u" by simp
  moreover have "?u = rev (dropWhile is_space (rev ?u)) @ rev (takeWhile is_space (rev ?u))"
    by (metis rev_append rev_rev_ident takeWhile_dropWhile_id)
  ultimately have "s = takeWhile is_space s @ strip s @ rev (takeWhile is_space (rev ?u))"
    unfolding strip_def by metis
  then show ?thesis by blast
qed

lemma json_block_match_shape:
  assumes "rx_match json_block_rx t = Some n"
  shows "\<exists>b d. t = ''{'' @ b @ ''}'' @ d"
proof -
  from assms obtain xs n' where t: "t = CHR ''{'' # xs"
    and m: "rx_match [Star (\<lambda>c. True), Lit CHR ''}''] xs = Some n'"
    unfolding json_block_rx_def by (auto split: list.splits if_splits)
  from m obtain k where "map_option ((+) k) (rx_match [Lit CHR ''}''] (drop k xs)) = Some n'"
    using greedy_Some_D by fastforce
  then obtain d where "drop k xs = CHR ''}'' # d"
    by (auto split: list.splits if_splits)
  then have "xs = take k xs @ CHR ''}'' # d"
    by (metis append_take_drop_id)
  with t show ?thesis by auto
qed

lemma extract_json_block_Inr_shape:
  assumes "extract_json_block s = Inr m"
  shows "\<exists>a b d. s = a @ ''{'' @ b @ ''}'' @ d"
proof -
  from assms have "rx_search json_block_rx s = Some m"
    unfolding extract_json_block_def by (auto split: option.splits simp del: rx_search.simps)
  then obtain a t n where "s = a @ t" "rx_match json_block_rx t = Some n"
    using rx_search_Some_D by blast
  then show ?thesis using json_block_match_shape by blast
qed

lemma extract_json_block_no_braces:
  assumes "\<not> (\<exists>a b d. c = a @ ''{'' @ b @ ''}'' @ d)"
  shows "extract_json_block (strip c) = Inl ValueError"
proof (cases "extract_json_block (strip c)")
  case (Inl e)
  then show ?thesis
    unfolding extract_json_block_def by (auto split: option.splits simp del: rx_search.simps)
next
  case (Inr m)
  then obtain a b d where s: "strip c = a @ ''{'' @ b @ ''}'' @ d"
    using extract_json_block_Inr_shape by blast
  obtain x y where "c = x @ strip c @ y" using strip_infix by blast
  with s have "c = (x @ a) @ ''{'' @ b @ ''}'' @ (d @ y)" by simp
  with assms show ?thesis by blast
qed

lemma handlers_catch_everything: "is_Exception e"
  by (cases e) simp_all

lemma classify_returns: "\<exists>r. classify_comment_by_issue sv comment_text pdf_attached = Inr r"
  unfolding classify_comment_by_issue_def
  by (simp add: handlers_catch_everything Let_def split: sum.splits)

lemma classify_fallback_on_error:
  "classify_try sv (truncate_comment comment_text) pdf_attached = Inl e
   \<Longrightarrow> classify_comment_by_issue sv comment_text pdf_attached = Inr fallback_record"
  unfolding classify_comment_by_issue_def
  by (simp add: handlers_catch_everything USE_API_def)

section \<open>Properties of the Text Extractor\<close>

lemma extract_text_ocr_branch:
  assumes "strip (fst (plumber_pass f)) = []"
  shows "extract_text_from_pdf f =
     (case ocr_pass f of
        Inl e \<Rightarrow> Inr ((if snd (plumber_pass f) then [PlumberErrorLogged] else [])
                       @ [RunningOcr, OcrFailedLogged], ''Unknown (OCR failed)'')
      | Inr ocr_text \<Rightarrow>
          Inr ((if snd (plumber_pass f) then [PlumberErrorLogged] else []) @ [RunningOcr],
               if strip ocr_text \<noteq> [] then strip (strip ocr_text)
               else ''Unknown (PDF unreadable)''))"
  using assms unfolding extract_text_from_pdf_def
  by (cases "plumber_pass f") (simp add: handlers_catch_everything Let_def split: sum.splits)

lemma extract_text_plain_branch:
  assumes "strip (fst (plumber_pass f)) \<noteq> []"
  shows "extract_text_from_pdf f =
     Inr (if snd (plumber_pass f) then [PlumberErrorLogged] else [],
          strip (fst (plumber_pass f)))"
proof -
  from assms have "fst (plumber_pass f) \<noteq> []" by (auto simp: strip_def)
  with assms show ?thesis
    unfolding extract_text_from_pdf_def by (cases "plumber_pass f") simp
qed

section \<open>Claims about the Identifier Resolver\<close>



section \<open>Claims about the Structured Extractor\<close>

text \<open>
  C3. Let the service answer the request of \<open>classify_comment_by_issue\<close> with the content \<open>c\<close>. If
  \<open>c\<close> has no substring that starts with an opening brace and ends with a closing brace, the search
  of \<open>extract_json_block\<close> fails with \<open>ValueError\<close> inside the \<open>try\<close> block, and the function
  returns the fallback record: every text field is \<open>Unknown\<close> and \<open>issues\<close> is the one-element list
  \<open>Needs manual review\<close>. For every service, comment text and flag the function returns a record
  and no error leaves it.
\<close>

theorem classify_without_json_block:
  assumes "chat sv (truncate_comment comment_text) pdf_attached = Content (Some c)"
    and "\<not> (\<exists>a b d. c = a @ ''{'' @ b @ ''}'' @ d)"
  shows "classify_comment_by_issue sv comment_text pdf_attached = Inr fallback_record
         \<and> issues fallback_record = [JString ''Needs manual review'']
         \<and> who_type fallback_record = JString ''Unknown''
         \<and> who_name fallback_record = JString ''Unknown''
         \<and> what fallback_record = JString ''Unknown''
         \<and> why fallback_record = JString ''Unknown''
         \<and> (\<forall>sv' t p. \<exists>r. classify_comment_by_issue sv' t p = Inr r)"
proof -
  have "classify_try sv (truncate_comment comment_text) pdf_attached = Inl ValueError"
    unfolding classify_try_def using assms extract_json_block_no_braces by simp
  then have "classify_comment_by_issue sv comment_text pdf_attached = Inr fallback_record"
    by (rule classify_fallback_on_error)
  then show ?thesis using classify_returns by (simp add: fallback_record_def)
qed

theorem classify_without_json_block_witness:
  "classify_comment_by_issue
     \<lparr>chat = (\<lambda>t p. Content (Some ''Sorry, I cannot help with that.'')),
      json_loads = (\<lambda>s. None)\<rparr> ''A comment'' False = Inr fallback_record"
proof -
  let ?c = "''Sorry, I cannot help with that.''"
  let ?sv = "\<lparr>chat = (\<lambda>t p. Content (Some ?c)), json_loads = (\<lambda>s. None)\<rparr>"
  have h1: "chat ?sv (truncate_comment ''A comment'') False = Content (Some ?c)" by simp
  have h2: "\<not> (\<exists>a b d. ?c = a @ ''{'' @ b @ ''}'' @ d)"
  proof
    assume "\<exists>a b d. ?c = a @ ''{'' @ b @ ''}'' @ d"
    then obtain a b d where "?c = a @ ''{'' @ b @ ''}'' @ d" by blast
    then have "set ?c = set (a @ ''{'' @ b @ ''}'' @ d)" by (rule arg_cong)
    then have "CHR ''{'' \<in> set ?c" by (simp del: set_simps) simp
    then show False by simp
  qed
  from classify_without_json_block [OF h1 h2] show ?thesis by simp
qed

text \<open>
  C9. If the block \<open>extract_json_block\<close> finds in the content parses to an object that has no key
  \<open>issues\<close>, the subscript \<open>response_data["issues"]\<close> raises \<open>KeyError\<close> in the \<open>try\<close> block, the
  handler \<open>except Exception\<close> catches it, and the function returns the whole fallback record: the
  values the object holds for the other keys are not in the result.
\<close>

theorem classify_missing_issues_key:
  assumes "chat sv (truncate_comment comment_text) pdf_attached = Content (Some c)"
    and "extract_json_block (strip c) = Inr clean_json"
    and "json_loads sv clean_json = Some (JObject response_data)"
    and "map_of response_data ''issues'' = None"
  shows "classify_try sv (truncate_comment comment_text) pdf_attached = Inl KeyError
         \<and> classify_comment_by_issue sv comment_text pdf_attached = Inr fallback_record
         \<and> who_type fallback_record = JString ''Unknown''
         \<and> who_name fallback_record = JString ''Unknown''
         \<and> what fallback_record = JString ''Unknown''
         \<and> why fallback_record = JString ''Unknown''
         \<and> issues fallback_record = [JString ''Needs manual review'']
         \<and> scientific_legal_support fallback_record = JString ''No''"
proof -
  have "parse_issues response_data = Inl KeyError"
    unfolding parse_issues_def dict_get_def using assms(4) by simp
  then have t: "classify_try sv (truncate_comment comment_text) pdf_attached = Inl KeyError"
    unfolding classify_try_def using assms(1-3) by simp
  then have "classify_comment_by_issue sv comment_text pdf_attached = Inr fallback_record"
    by (rule classify_fallback_on_error)
  with t show ?thesis by (simp add: fallback_record_def)
qed

theorem classify_missing_issues_key_witness:
  "classify_comment_by_issue
     \<lparr>chat = (\<lambda>t p. Content (Some ''Here: {x} ok'')),
      json_loads = (\<lambda>s. Some (JObject [(''who_type'', JString ''individual''),
                                         (''who_name'', JString ''Jane Doe'')]))\<rparr>
     ''A comment'' False = Inr fallback_record
   \<and> who_type fallback_record = JString ''Unknown''"
proof -
  let ?d = "[(''who_type'', JString ''individual''), (''who_name'', JString ''Jane Doe'')]"
  let ?sv = "\<lparr>chat = (\<lambda>t p. Content (Some ''Here: {x} ok'')),
              json_loads = (\<lambda>s. Some (JObject ?d))\<rparr>"
  have h1: "chat ?sv (truncate_comment ''A comment'') False = Content (Some ''Here: {x} ok'')"
    by simp
  have h2: "extract_json_block (strip ''Here: {x} ok'') = Inr ''{x}''"
    by (simp add: extract_json_block_def strip_def is_space_def json_block_rx_def)
  have h3: "json_loads ?sv ''{x}'' = Some (JObject ?d)" by simp
  have h4: "map_of ?d ''issues'' = None" by simp
  from classify_missing_issues_key [OF h1 h2 h3 h4] show ?thesis by simp
qed

section \<open>Claims about the Text Extractor\<close>

text \<open>
  C4, as the code has it. The OCR fallback runs exactly when the text the primary pass has
  gathered is empty or whitespace-only, whether or not that pass raised: if the primary pass
  leaves no such text, \<open>extract_text_from_pdf\<close> prints that it runs OCR. If the OCR pass then fails,
  the result is \<open>Unknown (OCR failed)\<close>; if it succeeds without any text that is not whitespace,
  the result is \<open>Unknown (PDF unreadable)\<close>. The two strings differ, and the function returns a
  text for every file: no error leaves it.
\<close>

theorem extractor_fallback_order:
  "(strip (fst (plumber_pass f)) = []
      \<longrightarrow> (\<exists>log r. extract_text_from_pdf f = Inr (log, r) \<and> RunningOcr \<in> set log))
   \<and> (strip (fst (plumber_pass f)) = [] \<and> ocr_pass f = Inl e
      \<longrightarrow> (\<exists>log. extract_text_from_pdf f = Inr (log, ''Unknown (OCR failed)'')
                 \<and> OcrFailedLogged \<in> set log))
   \<and> (strip (fst (plumber_pass f)) = [] \<and> ocr_pass f = Inr t \<and> strip t = []
      \<longrightarrow> (\<exists>log. extract_text_from_pdf f = Inr (log, ''Unknown (PDF unreadable)'')))
   \<and> ''Unknown (OCR failed)'' \<noteq> ''Unknown (PDF unreadable)''
   \<and> (\<exists>log r. extract_text_from_pdf f = Inr (log, r))"
proof (intro conjI impI)
  assume "strip (fst (plumber_pass f)) = []"
  then show "\<exists>log r. extract_text_from_pdf f = Inr (log, r) \<and> RunningOcr \<in> set log"
    by (simp add: extract_text_ocr_branch split: sum.splits)
next
  assume "strip (fst (plumber_pass f)) = [] \<and> ocr_pass f = Inl e"
  then show "\<exists>log. extract_text_from_pdf f = Inr (log, ''Unknown (OCR failed)'')
                \<and> OcrFailedLogged \<in> set log"
    by (simp add: extract_text_ocr_branch)
next
  assume "strip (fst (plumber_pass f)) = [] \<and> ocr_pass f = Inr t \<and> strip t = []"
  then show "\<exists>log. extract_text_from_pdf f = Inr (log, ''Unknown (PDF unreadable)'')"
    by (simp add: extract_text_ocr_branch)
next
  show "''Unknown (OCR failed)'' \<noteq> ''Unknown (PDF unreadable)''" by simp
next
  show "\<exists>log r. extract_text_from_pdf f = Inr (log, r)"
  proof (cases "strip (fst (plumber_pass f)) = []")
    case True
    then show ?thesis by (simp add: extract_text_ocr_branch split: sum.splits)
  next
    case False
    then show ?thesis by (simp add: extract_text_plain_branch)
  qed
qed

theorem extractor_fallback_order_witness:
  "extract_text_from_pdf \<lparr>plumber_pages = Some [PageRaises], ocr_images = None\<rparr>
     = Inr ([PlumberErrorLogged, RunningOcr, OcrFailedLogged], ''Unknown (OCR failed)'')
   \<and> extract_text_from_pdf \<lparr>plumber_pages = None, ocr_images = Some [Some '' '']\<rparr>
     = Inr ([PlumberErrorLogged, RunningOcr], ''Unknown (PDF unreadable)'')"
proof -
  let ?f = "\<lparr>plumber_pages = Some [PageRaises], ocr_images = None\<rparr>"
  let ?g = "\<lparr>plumber_pages = None, ocr_images = Some [Some '' '']\<rparr>"
  have f: "strip (fst (plumber_pass ?f)) = [] \<and> ocr_pass ?f = Inl LibraryError"
    by (simp add: plumber_pass_def ocr_pass_def strip_def)
  have g: "strip (fst (plumber_pass ?g)) = [] \<and> ocr_pass ?g = Inr [CHR '' '', CHR 0x0A]
           \<and> strip [CHR '' '', CHR 0x0A] = []"
    by (simp add: plumber_pass_def ocr_pass_def strip_def is_space_def)
  from extractor_fallback_order [of ?f LibraryError] f
  obtain log1 where l1: "extract_text_from_pdf ?f = Inr (log1, ''Unknown (OCR failed)'')"
    by blast
  from extractor_fallback_order [of ?g _ "[CHR '' '', CHR 0x0A]"] g
  obtain log2 where l2: "extract_text_from_pdf ?g = Inr (log2, ''Unknown (PDF unreadable)'')"
    by blast
  have "extract_text_from_pdf ?f = Inr ([PlumberErrorLogged, RunningOcr, OcrFailedLogged], ''Unknown (OCR failed)'')"
    using f l1 by (simp add: extract_text_ocr_branch plumber_pass_def)
  moreover have "extract_text_from_pdf ?g = Inr ([PlumberErrorLogged, RunningOcr], ''Unknown (PDF unreadable)'')"
    using g l2 by (simp add: extract_text_ocr_branch plumber_pass_def)
  ultimately show ?thesis by simp
qed

text \<open>
  C4 as stated fails where the primary pass raises after it has gathered text: the first page
  gives \<open>abc\<close>, the second page raises, and the function returns \<open>abc\<close> without running OCR.
\<close>

theorem extractor_partial_text_counterexample:
  "snd (plumber_pass \<lparr>plumber_pages = Some [PageText ''abc'', PageRaises],
                      ocr_images = Some [Some ''scanned'']\<rparr>)
   \<and> extract_text_from_pdf \<lparr>plumber_pages = Some [PageText ''abc'', PageRaises],
                             ocr_images = Some [Some ''scanned'']\<rparr>
       = Inr ([PlumberErrorLogged], ''abc'')
   \<and> RunningOcr \<notin> set [PlumberErrorLogged]"
  by (simp add: extract_text_from_pdf_def plumber_pass_def strip_def is_space_def)

end
